theory Spec2Isabelle
  imports Complex_Main "HOL-Library.Sublist"
begin

section \<open>Values, exceptions, log\<close>

text \<open>
  The values that \<^verbatim>\<open>response.json()\<close> hands to the pipeline: null, numbers, strings and
  objects. An object is the Python dict in insertion order; its keys are distinct.
  JSON booleans and arrays occur in none of the fields the pipeline reads and are left
  out. A cell of a DataFrame holds one such value; \<open>JNull\<close> stands for both
  \<^verbatim>\<open>None\<close> and \<^verbatim>\<open>NaN\<close>. Numbers are exact: floating-point rounding is not part of the
  model.
\<close>

datatype json = JNull | JNum real | JStr string | JObj "(string \<times> json) list"

datatype exn = KeyError | TypeError | AttributeError | ValueError | RequestException

datatype level = INFO | WARNING | ERROR

type_synonym log = "(level \<times> string) list"

text \<open>
  What \<^verbatim>\<open>requests.get(url)\<close> gives: an exception of the transport, or a response with a
  status code and a body that \<^verbatim>\<open>response.json()\<close> either parses or rejects.
\<close>

datatype body = InvalidJSON | Json json

datatype http = ConnectionFailed | Response nat body

section \<open>DataFrames\<close>

text \<open>
  A DataFrame is its column labels and its rows, every row holding one cell per column.
  The pandas operations below are the ones the script calls, with the arguments it
  gives them.
\<close>

record dataframe =
  columns :: "string list"
  rows :: "json list list"

definition wf_df :: "dataframe \<Rightarrow> bool" where
  "wf_df df \<longleftrightarrow> distinct (columns df) \<and> list_all (\<lambda>r. length r = length (columns df)) (rows df)"

text \<open>\<^verbatim>\<open>pd.DataFrame([data])\<close>: one row, one column per key of the dict.\<close>

definition DataFrame_of_record :: "(string \<times> json) list \<Rightarrow> dataframe" where
  "DataFrame_of_record data = \<lparr>columns = map fst data, rows = [map snd data]\<rparr>"

text \<open>\<^verbatim>\<open>pd.DataFrame(columns=cols)\<close>: no rows.\<close>

definition DataFrame_empty :: "string list \<Rightarrow> dataframe" where
  "DataFrame_empty cols = \<lparr>columns = cols, rows = []\<rparr>"

text \<open>\<^verbatim>\<open>pd.DataFrame(list(rates.items()), columns=[c1, c2])\<close>: one row per item.\<close>

definition DataFrame_of_items :: "(string \<times> json) list \<Rightarrow> string \<Rightarrow> string \<Rightarrow> dataframe" where
  "DataFrame_of_items items c1 c2 = \<lparr>columns = [c1, c2], rows = map (\<lambda>(k, v). [JStr k, v]) items\<rparr>"

text \<open>Position of a label among the columns, and the cell a row holds under a label.\<close>

definition col_index :: "string list \<Rightarrow> string \<Rightarrow> nat" where
  "col_index cols c = length (takeWhile (\<lambda>x. x \<noteq> c) cols)"

definition cell :: "string list \<Rightarrow> json list \<Rightarrow> string \<Rightarrow> json" where
  "cell cols r c = r ! col_index cols c"

text \<open>\<^verbatim>\<open>df.rename(columns=m)\<close>: a new frame; labels absent from \<open>m\<close> stay.\<close>

definition rename_columns :: "(string \<times> string) list \<Rightarrow> dataframe \<Rightarrow> dataframe" where
  "rename_columns m df =
     df\<lparr>columns := map (\<lambda>c. case map_of m c of Some c' \<Rightarrow> c' | None \<Rightarrow> c) (columns df)\<rparr>"

text \<open>
  The positions at which a label occurs among the columns, counted from \<open>n\<close>. A frame
  built from a dict has every label once; the renaming of line 125 can make
  \<open>after_hours\<close> or \<open>pre_market\<close> occur twice.
\<close>

fun positions_from :: "nat \<Rightarrow> string list \<Rightarrow> string \<Rightarrow> nat list" where
  "positions_from n [] c = []"
| "positions_from n (x # xs) c = (if x = c then [n] else []) @ positions_from (Suc n) xs c"

definition positions :: "string list \<Rightarrow> string \<Rightarrow> nat list" where
  "positions cols c = positions_from 0 cols c"

text \<open>
  \<^verbatim>\<open>df.melt(id_vars, value_vars, var_name, value_name)\<close> as pandas 2 has it: ValueError
  when \<open>value_name\<close> is already a column, KeyError when an id or value column is missing,
  otherwise one block of rows per value column, in the order of \<open>value_vars\<close>. A value
  label that several columns carry selects all of them, each with a block of its own
  under the same label. The id labels are taken to occur once.
\<close>

definition melt :: "dataframe \<Rightarrow> string list \<Rightarrow> string list \<Rightarrow> string \<Rightarrow> string \<Rightarrow> exn + dataframe" where
  "melt df id_vars value_vars var_name value_name =
     (if value_name \<in> set (columns df) then Inl ValueError
      else if \<not> set (id_vars @ value_vars) \<subseteq> set (columns df) then Inl KeyError
      else Inr \<lparr>columns = id_vars @ [var_name, value_name],
                rows = concat (map (\<lambda>v. concat (map (\<lambda>i. map (\<lambda>r. map (cell (columns df) r) id_vars
                                                                        @ [JStr v, r ! i]) (rows df))
                                                     (positions (columns df) v)))
                                   value_vars)\<rparr>)"

section \<open>Reshaper\<close>

definition price_columns :: "string list" where
  "price_columns = [''open'', ''high'', ''low'', ''close'', ''after_hours'', ''pre_market'']"

definition rename_wide :: "dataframe \<Rightarrow> dataframe" where
  "rename_wide df = rename_columns [(''afterHours'', ''after_hours''), (''preMarket'', ''pre_market'')] df"

definition create_price_types_df :: "dataframe \<Rightarrow> dataframe option \<times> log" where
  "create_price_types_df df0 =
     (let df = rename_wide df0;
          available_columns = filter (\<lambda>col. col \<in> set (columns df)) price_columns
      in if available_columns = [] then
           (Some (DataFrame_empty [''ticker'', ''date'', ''price_type'', ''price'']),
            [(WARNING, ''No price columns found in the provided DataFrame.'')])
         else
           (case melt df [''symbol'', ''from''] available_columns ''price_type'' ''price'' of
              Inl e \<Rightarrow> (None, [(ERROR, ''An error occurred while transforming the DataFrame'')])
            | Inr df_long \<Rightarrow>
                (Some (rename_columns [(''symbol'', ''ticker''), (''from'', ''date'')] df_long),
                 [(INFO, ''Successfully transformed the DataFrame into long format.'')])))"

section \<open>Report Builder\<close>

text \<open>
  \<^verbatim>\<open>str.upper()\<close> on the ASCII letters; currency codes are ASCII.
\<close>

definition char_upper :: "char \<Rightarrow> char" where
  "char_upper c = (let n = (of_char c :: nat) in if 97 \<le> n \<and> n \<le> 122 then char_of (n - 32) else c)"

definition upper :: "string \<Rightarrow> string" where
  "upper s = map char_upper s"

text \<open>
  \<^verbatim>\<open>df[name] = values\<close>: the column is overwritten where it exists and appended otherwise.
  It changes the frame it is called on, so the model returns the changed frame.
\<close>

definition setitem :: "dataframe \<Rightarrow> string \<Rightarrow> json list \<Rightarrow> dataframe" where
  "setitem df name vs =
     (if name \<in> set (columns df)
      then df\<lparr>rows := map2 (\<lambda>r v. r[col_index (columns df) name := v]) (rows df) vs\<rparr>
      else \<lparr>columns = columns df @ [name], rows = map2 (\<lambda>r v. r @ [v]) (rows df) vs\<rparr>)"

text \<open>\<^verbatim>\<open>df[name] = scalar\<close>: the scalar in every row.\<close>

definition setitem_scalar :: "dataframe \<Rightarrow> string \<Rightarrow> json \<Rightarrow> dataframe" where
  "setitem_scalar df name v = setitem df name (replicate (length (rows df)) v)"

text \<open>\<^verbatim>\<open>df[name]\<close>: the column, or KeyError.\<close>

definition getitem :: "dataframe \<Rightarrow> string \<Rightarrow> exn + json list" where
  "getitem df name =
     (if name \<in> set (columns df) then Inr (map (\<lambda>r. cell (columns df) r name) (rows df))
      else Inl KeyError)"

text \<open>\<^verbatim>\<open>df[names]\<close>: the frame restricted to the listed columns in the listed order, or KeyError.\<close>

definition select_columns :: "dataframe \<Rightarrow> string list \<Rightarrow> exn + dataframe" where
  "select_columns df names =
     (if set names \<subseteq> set (columns df)
      then Inr \<lparr>columns = names, rows = map (\<lambda>r. map (cell (columns df) r) names) (rows df)\<rparr>
      else Inl KeyError)"

text \<open>
  \<^verbatim>\<open>left.merge(right, how="cross")\<close>: every left row paired with every right row, left rows
  outermost; a label carried by both sides gets the suffixes \<^verbatim>\<open>_x\<close> and \<^verbatim>\<open>_y\<close>.
\<close>

definition merge_cross :: "dataframe \<Rightarrow> dataframe \<Rightarrow> dataframe" where
  "merge_cross left right =
     \<lparr>columns = map (\<lambda>c. if c \<in> set (columns right) then c @ ''_x'' else c) (columns left)
                @ map (\<lambda>c. if c \<in> set (columns left) then c @ ''_y'' else c) (columns right),
      rows = concat (map (\<lambda>a. map (\<lambda>b. a @ b) (rows right)) (rows left))\<rparr>"

text \<open>
  The product of two cells, as the product of two columns computes it: a null on either
  side gives null, two numbers give their product, and a string or an object operand
  raises TypeError. Numbers are exact here: the wrap-around of a product of two int64
  columns and the rounding of float64 are not modelled, and neither is Python's
  repetition of a string by an integer. What is proved below about the report does not
  rest on the value of a product.
\<close>

fun mul_cell :: "json \<Rightarrow> json \<Rightarrow> exn + json" where
  "mul_cell JNull _ = Inr JNull"
| "mul_cell _ JNull = Inr JNull"
| "mul_cell (JNum a) (JNum b) = Inr (JNum (a * b))"
| "mul_cell _ _ = Inl TypeError"

fun mul_series :: "json list \<Rightarrow> json list \<Rightarrow> exn + json list" where
  "mul_series (a # as) (b # bs) =
     (case mul_cell a b of
        Inl e \<Rightarrow> Inl e
      | Inr c \<Rightarrow> (case mul_series as bs of Inl e \<Rightarrow> Inl e | Inr cs \<Rightarrow> Inr (c # cs)))"
| "mul_series _ _ = Inr []"

definition final_columns :: "string list" where
  "final_columns = [''date'', ''ticker'', ''price_type'', ''ticker_currency'', ''price'',
                    ''currency'', ''exchange_rate'', ''currency_price'']"

text \<open>Lines 251 to 255: the cross join, the converted price, the final columns.\<close>

definition report_body :: "dataframe \<Rightarrow> dataframe \<Rightarrow> exn + dataframe" where
  "report_body stamped exchange_rates_df =
     (let merged_df = merge_cross stamped exchange_rates_df in
      case getitem merged_df ''price'' of
        Inl e \<Rightarrow> Inl e
      | Inr price \<Rightarrow>
          (case getitem merged_df ''exchange_rate'' of
             Inl e \<Rightarrow> Inl e
           | Inr exchange_rate \<Rightarrow>
               (case mul_series price exchange_rate of
                  Inl e \<Rightarrow> Inl e
                | Inr currency_price \<Rightarrow>
                    select_columns (setitem merged_df ''currency_price'' currency_price) final_columns)))"

text \<open>
  The result is the report (None when the body raised), then the frame that the caller
  passed as \<^verbatim>\<open>stock_df_long\<close> as it is after the call, then the log. A caller may pass
  None for \<^verbatim>\<open>stock_df_long\<close>: the item assignment then raises TypeError.
\<close>

definition create_stock_currency_report ::
  "dataframe option \<Rightarrow> dataframe \<Rightarrow> string \<Rightarrow> dataframe option \<times> dataframe option \<times> log" where
  "create_stock_currency_report stock_df_long exchange_rates_df stock_currency =
     (case stock_df_long of
        None \<Rightarrow> (None, None, [(ERROR, ''An error occurred while creating the stock currency report'')])
      | Some df \<Rightarrow>
          (let stamped = setitem_scalar df ''ticker_currency'' (JStr (upper stock_currency)) in
           case report_body stamped exchange_rates_df of
             Inl e \<Rightarrow> (None, Some stamped,
                        [(ERROR, ''An error occurred while creating the stock currency report'')])
           | Inr final_df \<Rightarrow> (Some final_df, Some stamped,
                        [(INFO, ''Successfully created the stock currency report'')])))"

section \<open>Fetchers\<close>

text \<open>
  Each fetcher makes one call; the model takes what that call gave as its argument.
  The URL, built from the ticker, the date, the symbols and the API key, only goes
  into the request and the log.
\<close>

text \<open>
  \<^verbatim>\<open>raise_for_status\<close> raises for the status codes 400 to 599; a body that is not JSON
  raises in \<^verbatim>\<open>response.json()\<close>, an exception that the first handler catches with
  requests 2.27 and later (the second handler with earlier versions; both log an error).
\<close>

definition has_key :: "(string \<times> json) list \<Rightarrow> string \<Rightarrow> bool" where
  "has_key d k \<longleftrightarrow> k \<in> set (map fst d)"

definition fetch_stock_data :: "http \<Rightarrow> dataframe option \<times> log" where
  "fetch_stock_data response =
     (case response of
        ConnectionFailed \<Rightarrow>
          (None, [(INFO, ''Fetching stock data''), (ERROR, ''Network error fetching stock data'')])
      | Response status_code b \<Rightarrow>
          if 400 \<le> status_code \<and> status_code < 600 then
            (None, [(INFO, ''Fetching stock data''), (ERROR, ''Network error fetching stock data'')])
          else
            (case b of
               InvalidJSON \<Rightarrow>
                 (None, [(INFO, ''Fetching stock data''), (ERROR, ''Network error fetching stock data'')])
             | Json (JObj data) \<Rightarrow>
                 if has_key data ''open'' \<and> has_key data ''close''
                 then (Some (DataFrame_of_record data), [(INFO, ''Fetching stock data'')])
                 else (None, [(INFO, ''Fetching stock data''), (WARNING, ''No trading data available'')])
             | Json _ \<Rightarrow>
                 (None, [(INFO, ''Fetching stock data''), (WARNING, ''No trading data available'')])))"

text \<open>
  The resolver returns the currency name, the empty string, or None (here \<open>JNull\<close>).
  Everything that raises inside its \<^verbatim>\<open>try\<close>, the ValueError of line 90 included, is
  caught by the handler of line 96, which returns None. \<^verbatim>\<open>in\<close> on a string is the
  substring test and raises TypeError on a number or on None; indexing a string with
  a string raises TypeError.
\<close>

definition not_found_log :: log where
  "not_found_log = [(ERROR, ''Currency information not found''),
                    (ERROR, ''An error occurred while fetching currency name'')]"

definition raised_log :: log where
  "raised_log = [(ERROR, ''An error occurred while fetching currency name'')]"

definition fetch_currency_name :: "http \<Rightarrow> json \<times> log" where
  "fetch_currency_name response =
     (case response of
        ConnectionFailed \<Rightarrow> (JNull, raised_log)
      | Response status_code b \<Rightarrow>
          if status_code = 200 then
            (case b of
               InvalidJSON \<Rightarrow> (JNull, raised_log)
             | Json (JObj data) \<Rightarrow>
                 (case map_of data ''results'' of
                    None \<Rightarrow> (JNull, not_found_log)
                  | Some (JObj results) \<Rightarrow>
                      (case map_of results ''currency_name'' of
                         None \<Rightarrow> (JNull, not_found_log)
                       | Some currency_name \<Rightarrow> (currency_name, [(INFO, ''Currency name for ticker'')]))
                  | Some (JStr results) \<Rightarrow>
                      if sublist ''currency_name'' results then (JNull, raised_log)
                      else (JNull, not_found_log)
                  | Some _ \<Rightarrow> (JNull, raised_log))
             | Json (JStr data) \<Rightarrow>
                 if sublist ''results'' data then (JNull, raised_log) else (JNull, not_found_log)
             | Json _ \<Rightarrow> (JNull, raised_log))
          else (JStr [], [(ERROR, ''Error fetching data'')]))"

definition rate_columns :: "string list" where
  "rate_columns = [''currency'', ''exchange_rate'']"

text \<open>
  \<^verbatim>\<open>data.get("rates", {})\<close> needs a dict and \<^verbatim>\<open>rates.items()\<close> another one; anything else
  raises AttributeError, which the handler of line 189 turns into None.
\<close>

definition fetch_latest_currency_rates :: "http \<Rightarrow> dataframe option \<times> log" where
  "fetch_latest_currency_rates response =
     (case response of
        ConnectionFailed \<Rightarrow> (None, [(ERROR, ''An error occurred while fetching exchange rates'')])
      | Response status_code b \<Rightarrow>
          if status_code = 200 then
            (case b of
               Json (JObj data) \<Rightarrow>
                 (case map_of data ''rates'' of
                    None \<Rightarrow> (Some (DataFrame_of_items [] ''currency'' ''exchange_rate''),
                             [(INFO, ''Successfully fetched exchange rates'')])
                  | Some (JObj rates) \<Rightarrow>
                      (Some (DataFrame_of_items rates ''currency'' ''exchange_rate''),
                       [(INFO, ''Successfully fetched exchange rates'')])
                  | Some _ \<Rightarrow> (None, [(ERROR, ''An error occurred while fetching exchange rates'')]))
             | _ \<Rightarrow> (None, [(ERROR, ''An error occurred while fetching exchange rates'')]))
          else (Some (DataFrame_empty rate_columns), [(ERROR, ''Error fetching data'')]))"

text \<open>
  Line 216 logs the success before \<^verbatim>\<open>.items()\<close> of line 217 is called, which raises
  AttributeError on a body that is not an object.
\<close>

definition fetch_available_currencies :: "http \<Rightarrow> dataframe option \<times> log" where
  "fetch_available_currencies response =
     (case response of
        ConnectionFailed \<Rightarrow> (None, [(ERROR, ''An error occurred while fetching available currencies'')])
      | Response status_code b \<Rightarrow>
          if status_code = 200 then
            (case b of
               InvalidJSON \<Rightarrow>
                 (None, [(ERROR, ''An error occurred while fetching available currencies'')])
             | Json (JObj data) \<Rightarrow>
                 (Some (DataFrame_of_items data ''Currency Code'' ''Currency Name''),
                  [(INFO, ''Successfully fetched available currencies.'')])
             | Json _ \<Rightarrow>
                 (None, [(INFO, ''Successfully fetched available currencies.''),
                         (ERROR, ''An error occurred while fetching available currencies'')]))
          else (Some (DataFrame_empty [''Currency Code'', ''Currency Name'']),
                [(ERROR, ''Error fetching data'')]))"

section \<open>Pipeline Driver\<close>

text \<open>
  The four calls of a run, in the order \<^verbatim>\<open>main\<close> makes them, and what the run leaves
  behind: the log, the frame written to the output path (None when nothing was
  written), and the exception that left \<^verbatim>\<open>main\<close> (None when \<^verbatim>\<open>main\<close> returned). The
  handler of line 319 catches ValueError only. Writing the file is taken to succeed.
\<close>

record world =
  stock_response :: http
  reference_response :: http
  currencies_response :: http
  rates_response :: http

record run =
  logged :: log
  written :: "dataframe option"
  raised :: "exn option"

text \<open>Python's truth value of what the resolver returned (\<^verbatim>\<open>if not stock_currency\<close>).\<close>

fun truthy :: "json \<Rightarrow> bool" where
  "truthy JNull = False"
| "truthy (JNum x) = (x \<noteq> 0)"
| "truthy (JStr s) = (s \<noteq> [])"
| "truthy (JObj d) = (d \<noteq> [])"

text \<open>Steps 3 to 5 and the save, once the currency is known to be a string.\<close>

definition main_report :: "world \<Rightarrow> log \<Rightarrow> dataframe option \<Rightarrow> string \<Rightarrow> run" where
  "main_report w l0 stock_df_long stock_currency =
     (let (available_currencies, l1) = fetch_available_currencies (currencies_response w);
          l2 = l0 @ [(INFO, ''Stock is traded in'')] @ l1
               @ (if available_currencies = None
                  then [(WARNING, ''Could not retrieve available currencies.'')] else []);
          (exchange_rates, l3) = fetch_latest_currency_rates (rates_response w)
      in case exchange_rates of
           None \<Rightarrow>
             \<lparr>logged = l2 @ l3 @ [(ERROR, ''Failed to fetch exchange rates. Exiting.'')],
              written = None, raised = None\<rparr>
         | Some exchange_rates_df \<Rightarrow>
             (let (df_stock_currency, stock_df_long', l4) =
                    create_stock_currency_report stock_df_long exchange_rates_df stock_currency;
                  l5 = l2 @ l3 @ [(INFO, ''Exchange rates retrieved successfully.'')] @ l4
                       @ [(INFO, ''Stock currency report generated.'')]
              in case df_stock_currency of
                   None \<Rightarrow> \<lparr>logged = l5, written = None, raised = Some AttributeError\<rparr>
                 | Some report \<Rightarrow>
                     \<lparr>logged = l5 @ [(INFO, ''Stock Currency Report saved''),
                                      (INFO, ''You can upload this CSV file'')],
                      written = Some report, raised = None\<rparr>))"

definition main :: "world \<Rightarrow> run" where
  "main w =
     (let (stock, l1) = fetch_stock_data (stock_response w);
          l1' = [(INFO, ''Fetching stock data'')] @ l1
      in case stock of
           None \<Rightarrow>
             \<lparr>logged = l1' @ [(ERROR, ''Failed to fetch stock data'')], written = None, raised = None\<rparr>
         | Some stock_df \<Rightarrow>
             (let (stock_df_long, l2) = create_price_types_df stock_df;
                  (stock_currency, l3) = fetch_currency_name (reference_response w);
                  l4 = l1' @ l2 @ [(INFO, ''Stock data reshaped successfully.'')] @ l3
              in if \<not> truthy stock_currency then
                   \<lparr>logged = l4 @ [(ERROR, ''Could not fetch currency'')], written = None, raised = None\<rparr>
                 else
                   (case stock_currency of
                      JStr c \<Rightarrow> main_report w l4 stock_df_long c
                    | _ \<Rightarrow> \<lparr>logged = l4, written = None, raised = Some AttributeError\<rparr>)))"

section \<open>Data contracts\<close>

text \<open>
  The long price table is what the Reshaper returns: the four columns below, four
  cells per row. The rate table is what the Rate Fetcher returns. A numeric cell is a
  number or a null.
\<close>

definition long_columns :: "string list" where
  "long_columns = [''ticker'', ''date'', ''price_type'', ''price'']"

definition long_table :: "dataframe \<Rightarrow> bool" where
  "long_table df \<longleftrightarrow> columns df = long_columns \<and> list_all (\<lambda>r. length r = 4) (rows df)"

definition rate_table :: "dataframe \<Rightarrow> bool" where
  "rate_table df \<longleftrightarrow> columns df = rate_columns \<and> list_all (\<lambda>r. length r = 2) (rows df)"

fun numeric :: "json \<Rightarrow> bool" where
  "numeric JNull = True"
| "numeric (JNum x) = True"
| "numeric _ = False"

definition numeric_column :: "dataframe \<Rightarrow> string \<Rightarrow> bool" where
  "numeric_column df c \<longleftrightarrow> list_all (\<lambda>r. numeric (cell (columns df) r c)) (rows df)"

text \<open>
  The price columns that a wide record carries after the renaming of line 125, in the
  order of \<open>price_columns\<close>; those among them whose cell is not null; and the long row
  that belongs to one price column of a wide row.
\<close>

definition present_price_columns :: "dataframe \<Rightarrow> string list" where
  "present_price_columns df = filter (\<lambda>col. col \<in> set (columns (rename_wide df))) price_columns"

definition non_null_price_fields :: "dataframe \<Rightarrow> string list" where
  "non_null_price_fields df =
     filter (\<lambda>col. col \<in> set (columns (rename_wide df)) \<and>
                    list_all (\<lambda>r. cell (columns (rename_wide df)) r col \<noteq> JNull) (rows df))
            price_columns"

definition long_row :: "dataframe \<Rightarrow> json list \<Rightarrow> string \<Rightarrow> json list" where
  "long_row df r col =
     [cell (columns (rename_wide df)) r ''symbol'', cell (columns (rename_wide df)) r ''from'',
      JStr col, cell (columns (rename_wide df)) r col]"

text \<open>The cross join of a stamped long table with a rate table, and the report cut from it.\<close>

definition merged_columns :: "string list" where
  "merged_columns = [''ticker'', ''date'', ''price_type'', ''price'', ''ticker_currency'',
                     ''currency'', ''exchange_rate'']"

definition merged_rows :: "dataframe \<Rightarrow> json \<Rightarrow> dataframe \<Rightarrow> json list list" where
  "merged_rows long v rates = concat (map (\<lambda>a. map (\<lambda>b. a @ v # b) (rows rates)) (rows long))"

definition report_of :: "json list list \<Rightarrow> json list \<Rightarrow> dataframe" where
  "report_of R cp =
     \<lparr>columns = final_columns,
      rows = map (\<lambda>(r, m). map (cell (merged_columns @ [''currency_price'']) (r @ [m])) final_columns)
                 (zip R cp)\<rparr>"

section \<open>Example runs\<close>

text \<open>
  AAPL on 2024-10-03 with an open of 150 and a close of 152, against EUR at 0.92 and
  GBP at 0.78.
\<close>

definition aapl_body :: "(string \<times> json) list" where
  "aapl_body = [(''status'', JStr ''OK''), (''from'', JStr ''2024-10-03''), (''symbol'', JStr ''AAPL''),
                (''open'', JNum 150), (''close'', JNum 152)]"

definition aapl_wide :: dataframe where
  "aapl_wide = DataFrame_of_record aapl_body"

definition aapl_wide_null :: dataframe where
  "aapl_wide_null = DataFrame_of_record (aapl_body @ [(''preMarket'', JNull)])"

text \<open>A record that carries both \<open>afterHours\<close> and \<open>after_hours\<close>.\<close>

definition aapl_wide_twice :: dataframe where
  "aapl_wide_twice = DataFrame_of_record
     [(''symbol'', JStr ''AAPL''), (''from'', JStr ''2024-10-03''), (''open'', JNum 150),
      (''afterHours'', JNum 151), (''after_hours'', JNum 153)]"

definition aapl_long :: dataframe where
  "aapl_long = \<lparr>columns = long_columns,
                rows = [[JStr ''AAPL'', JStr ''2024-10-03'', JStr ''open'', JNum 150],
                        [JStr ''AAPL'', JStr ''2024-10-03'', JStr ''close'', JNum 152]]\<rparr>"

definition eur_gbp :: dataframe where
  "eur_gbp = \<lparr>columns = rate_columns,
              rows = [[JStr ''EUR'', JNum (92 / 100)], [JStr ''GBP'', JNum (78 / 100)]]\<rparr>"

definition no_rates :: dataframe where
  "no_rates = DataFrame_empty rate_columns"

definition aapl_report :: dataframe where
  "aapl_report = \<lparr>columns = final_columns,
     rows = [[JStr ''2024-10-03'', JStr ''AAPL'', JStr ''open'', JStr ''USD'', JNum 150,
              JStr ''EUR'', JNum (92 / 100), JNum 138],
             [JStr ''2024-10-03'', JStr ''AAPL'', JStr ''open'', JStr ''USD'', JNum 150,
              JStr ''GBP'', JNum (78 / 100), JNum 117],
             [JStr ''2024-10-03'', JStr ''AAPL'', JStr ''close'', JStr ''USD'', JNum 152,
              JStr ''EUR'', JNum (92 / 100), JNum (13984 / 100)],
             [JStr ''2024-10-03'', JStr ''AAPL'', JStr ''close'', JStr ''USD'', JNum 152,
              JStr ''GBP'', JNum (78 / 100), JNum (11856 / 100)]]\<rparr>"

definition usd_reference :: http where
  "usd_reference = Response 200 (Json (JObj [(''results'', JObj [(''currency_name'', JStr ''usd'')])]))"

definition eur_gbp_response :: http where
  "eur_gbp_response = Response 200 (Json (JObj [(''base'', JStr ''USD''),
       (''rates'', JObj [(''EUR'', JNum (92 / 100)), (''GBP'', JNum (78 / 100))])]))"

text \<open>The FX provider answers 500.\<close>

definition world_fx_500 :: world where
  "world_fx_500 = \<lparr>stock_response = Response 200 (Json (JObj aapl_body)),
                   reference_response = usd_reference,
                   currencies_response = Response 200 (Json (JObj [(''EUR'', JStr ''Euro'')])),
                   rates_response = Response 500 InvalidJSON\<rparr>"

text \<open>The call to the FX provider fails in the transport.\<close>

definition world_fx_down :: world where
  "world_fx_down = world_fx_500\<lparr>rates_response := ConnectionFailed\<rparr>"

text \<open>The stock provider answers with an open and a close but neither symbol nor from.\<close>

definition world_no_symbol :: world where
  "world_no_symbol = \<lparr>stock_response = Response 200 (Json (JObj [(''open'', JNum 150), (''close'', JNum 152)])),
                      reference_response = usd_reference,
                      currencies_response = Response 200 (Json (JObj [(''EUR'', JStr ''Euro'')])),
                      rates_response = eur_gbp_response\<rparr>"

text \<open>The reference provider answers 200 without \<^verbatim>\<open>results.currency_name\<close>.\<close>

definition no_currency_response :: http where
  "no_currency_response = Response 200 (Json (JObj [(''status'', JStr ''OK'')]))"

definition world_no_currency :: world where
  "world_no_currency = world_fx_500\<lparr>reference_response := no_currency_response\<rparr>"

section \<open>Evaluating the examples\<close>

lemmas frame_defs = setitem_scalar_def setitem_def merge_cross_def getitem_def select_columns_def
  report_body_def cell_def col_index_def final_columns_def long_columns_def rate_columns_def
  DataFrame_empty_def DataFrame_of_record_def DataFrame_of_items_def rename_columns_def rename_wide_def
  melt_def positions_def price_columns_def

lemmas fetch_defs = fetch_stock_data_def has_key_def fetch_currency_name_def
  fetch_available_currencies_def fetch_latest_currency_rates_def not_found_log_def raised_log_def

lemma upper_usd: "upper ''usd'' = ''USD''"
  by code_simp

lemma aapl_reshape_eval:
  "create_price_types_df aapl_wide =
     (Some aapl_long, [(INFO, ''Successfully transformed the DataFrame into long format.'')])"
  by (simp add: create_price_types_df_def aapl_wide_def aapl_body_def aapl_long_def frame_defs)

lemma aapl_report_eval:
  "create_stock_currency_report (Some aapl_long) eur_gbp ''usd'' =
     (Some aapl_report,
      Some \<lparr>columns = long_columns @ [''ticker_currency''],
            rows = [[JStr ''AAPL'', JStr ''2024-10-03'', JStr ''open'', JNum 150, JStr ''USD''],
                    [JStr ''AAPL'', JStr ''2024-10-03'', JStr ''close'', JNum 152, JStr ''USD'']]\<rparr>,
      [(INFO, ''Successfully created the stock currency report'')])"
  by (simp add: create_stock_currency_report_def aapl_long_def eur_gbp_def aapl_report_def upper_usd
      frame_defs)

lemma aapl_tables: "long_table aapl_long" "rate_table eur_gbp" "rate_table no_rates"
  "numeric_column aapl_long ''price''" "numeric_column eur_gbp ''exchange_rate''"
  by (simp_all add: long_table_def rate_table_def numeric_column_def aapl_long_def eur_gbp_def
      no_rates_def frame_defs)

section \<open>The Reshaper on a wide record\<close>

lemma rename_wide_rows: "rows (rename_wide df) = rows df"
  by (simp add: rename_wide_def rename_columns_def)

lemma rename_wide_mem:
  "c \<noteq> ''afterHours'' \<Longrightarrow> c \<noteq> ''preMarket'' \<Longrightarrow> c \<noteq> ''after_hours'' \<Longrightarrow> c \<noteq> ''pre_market'' \<Longrightarrow>
   c \<in> set (columns (rename_wide df)) \<longleftrightarrow> c \<in> set (columns df)"
  by (auto simp: rename_wide_def rename_columns_def image_iff split: option.splits if_splits)

lemma present_subset: "set (present_price_columns df) \<subseteq> set (columns (rename_wide df))"
  by (auto simp: present_price_columns_def)

lemma positions_from_absent: "c \<notin> set cols \<Longrightarrow> positions_from n cols c = []"
  by (induction cols arbitrary: n) auto

lemma positions_from_distinct:
  "distinct cols \<Longrightarrow> c \<in> set cols \<Longrightarrow> positions_from n cols c = [n + col_index cols c]"
proof (induction cols arbitrary: n)
  case Nil
  then show ?case by simp
next
  case (Cons x xs)
  show ?case
  proof (cases "x = c")
    case True
    with Cons.prems show ?thesis
      by (simp add: positions_from_absent col_index_def)
  next
    case False
    with Cons show ?thesis
      by (simp add: col_index_def)
  qed
qed

lemma positions_distinct:
  "distinct cols \<Longrightarrow> c \<in> set cols \<Longrightarrow> positions cols c = [col_index cols c]"
  by (simp add: positions_def positions_from_distinct)

lemma single_blocks:
  "(\<And>v. v \<in> set xs \<Longrightarrow> p v = [g v]) \<Longrightarrow>
   concat (map (\<lambda>v. concat (map (\<lambda>i. [f v i]) (p v))) xs) = map (\<lambda>v. f v (g v)) xs"
  by (induction xs) simp_all

lemma reshape_eq:
  assumes "rows df = [r]" "''symbol'' \<in> set (columns df)" "''from'' \<in> set (columns df)"
    and "''price'' \<notin> set (columns df)" and "distinct (columns (rename_wide df))"
  shows "fst (create_price_types_df df) =
         Some \<lparr>columns = long_columns, rows = map (long_row df r) (present_price_columns df)\<rparr>"
proof -
  have s: "''symbol'' \<in> set (columns (rename_wide df))" "''from'' \<in> set (columns (rename_wide df))"
    "''price'' \<notin> set (columns (rename_wide df))"
    using assms by (simp_all add: rename_wide_mem)
  show ?thesis
  proof (cases "present_price_columns df = []")
    case True
    then show ?thesis
      by (simp add: create_price_types_df_def Let_def present_price_columns_def DataFrame_empty_def
          long_columns_def)
  next
    case False
    have one: "positions (columns (rename_wide df)) v = [col_index (columns (rename_wide df)) v]"
      if "v \<in> set (present_price_columns df)" for v
      using that present_subset[of df] assms(5) by (intro positions_distinct) auto
    have blocks: "concat (map (\<lambda>v. concat (map (\<lambda>i. [f v i]) (positions (columns (rename_wide df)) v)))
                               (present_price_columns df))
                  = map (\<lambda>v. f v (col_index (columns (rename_wide df)) v)) (present_price_columns df)"
      for f :: "string \<Rightarrow> nat \<Rightarrow> json list"
      using one by (rule single_blocks)
    have m: "melt (rename_wide df) [''symbol'', ''from''] (present_price_columns df) ''price_type'' ''price''
             = Inr \<lparr>columns = [''symbol'', ''from'', ''price_type'', ''price''],
                    rows = map (long_row df r) (present_price_columns df)\<rparr>"
      using s present_subset[of df] assms(1) blocks
      by (simp add: melt_def rename_wide_rows long_row_def cell_def)
    show ?thesis
      using False m
      by (simp add: create_price_types_df_def Let_def present_price_columns_def[symmetric]
          rename_columns_def long_columns_def)
  qed
qed

text \<open>
  Without distinct labels the rows are not one per price type: on a record with both
  \<open>afterHours\<close> and \<open>after_hours\<close> the Reshaper returns two rows of type \<open>after_hours\<close>.
\<close>

lemma reshaper_label_twice:
  "fst (create_price_types_df aapl_wide_twice) =
     Some \<lparr>columns = [''ticker'', ''date'', ''price_type'', ''price''],
           rows = [[JStr ''AAPL'', JStr ''2024-10-03'', JStr ''open'', JNum 150],
                   [JStr ''AAPL'', JStr ''2024-10-03'', JStr ''after_hours'', JNum 151],
                   [JStr ''AAPL'', JStr ''2024-10-03'', JStr ''after_hours'', JNum 153]]\<rparr>"
  by (simp add: create_price_types_df_def aapl_wide_twice_def frame_defs)

text \<open>
  C1, as amended. For a wide record of one row, one cell per column, that carries
  \<open>symbol\<close> and \<open>from\<close>, has no column named \<open>price\<close>, and whose column labels are
  distinct after the renaming of line 125 (it does not carry both \<open>afterHours\<close> and
  \<open>after_hours\<close>, nor both \<open>preMarket\<close> and \<open>pre_market\<close>), the Reshaper returns one
  long row for each price column that is present after the renaming, whether its cell
  is null or not: the rows are
  the image of the present price columns, so there are as many rows as present
  columns; the present columns are distinct, so every price type occurs once; they
  are a subsequence of open, high, low, close, after_hours, pre_market, so the rows
  keep that order; and the price of each row is the cell of its column in the wide
  row. When no present price cell is null, the present columns are the non-null price
  fields.
\<close>

theorem reshaper_rows:
  assumes "rows df = [r]" and "length r = length (columns df)"
    and "distinct (columns (rename_wide df))"
    and "''symbol'' \<in> set (columns df)" and "''from'' \<in> set (columns df)"
    and "''price'' \<notin> set (columns df)"
  shows "fst (create_price_types_df df) =
           Some \<lparr>columns = long_columns, rows = map (long_row df r) (present_price_columns df)\<rparr>
       \<and> distinct (present_price_columns df)
       \<and> subseq (present_price_columns df) price_columns
       \<and> (list_all (\<lambda>col. cell (columns (rename_wide df)) r col \<noteq> JNull) (present_price_columns df)
            \<longrightarrow> present_price_columns df = non_null_price_fields df)"
proof (intro conjI impI)
  show "fst (create_price_types_df df) =
          Some \<lparr>columns = long_columns, rows = map (long_row df r) (present_price_columns df)\<rparr>"
    using assms(1,4,5,6,3) by (rule reshape_eq)
  show "distinct (present_price_columns df)"
    by (simp add: present_price_columns_def price_columns_def)
  show "subseq (present_price_columns df) price_columns"
    by (simp add: present_price_columns_def)
  assume "list_all (\<lambda>col. cell (columns (rename_wide df)) r col \<noteq> JNull) (present_price_columns df)"
  then have "\<And>col. col \<in> set price_columns \<Longrightarrow> col \<in> set (columns (rename_wide df)) \<Longrightarrow>
                  cell (columns (rename_wide df)) r col \<noteq> JNull"
    by (simp add: list_all_iff present_price_columns_def)
  then show "present_price_columns df = non_null_price_fields df"
    unfolding present_price_columns_def non_null_price_fields_def assms(1)
    by (intro filter_cong) auto
qed

theorem reshaper_rows_witness:
  "rows aapl_wide = [map snd aapl_body] \<and> length (map snd aapl_body) = length (columns aapl_wide)
   \<and> distinct (columns (rename_wide aapl_wide))
   \<and> ''symbol'' \<in> set (columns aapl_wide) \<and> ''from'' \<in> set (columns aapl_wide)
   \<and> ''price'' \<notin> set (columns aapl_wide)
   \<and> fst (create_price_types_df aapl_wide) = Some aapl_long
   \<and> present_price_columns aapl_wide = [''open'', ''close'']
   \<and> non_null_price_fields aapl_wide = [''open'', ''close'']"
  using reshaper_rows [of aapl_wide "map snd aapl_body"]
  by (simp add: aapl_wide_def aapl_body_def aapl_long_def present_price_columns_def
      non_null_price_fields_def long_row_def frame_defs)

text \<open>
  C1 as stated fails on a record that carries a price column with a null cell: open
  and close hold numbers and preMarket holds null, so two price fields are non-null,
  and the Reshaper returns three rows, the third with a null price.
\<close>

theorem reshaper_null_counterexample:
  "fst (create_price_types_df aapl_wide_null) =
     Some \<lparr>columns = [''ticker'', ''date'', ''price_type'', ''price''],
           rows = [[JStr ''AAPL'', JStr ''2024-10-03'', JStr ''open'', JNum 150],
                   [JStr ''AAPL'', JStr ''2024-10-03'', JStr ''close'', JNum 152],
                   [JStr ''AAPL'', JStr ''2024-10-03'', JStr ''pre_market'', JNull]]\<rparr>
   \<and> non_null_price_fields aapl_wide_null = [''open'', ''close'']"
  by (simp add: create_price_types_df_def aapl_wide_null_def aapl_body_def non_null_price_fields_def
      frame_defs)

section \<open>The Report Builder on a long table and a rate table\<close>

lemma mul_series_zip:
  "mul_series (map f rs) (map g rs) = Inr cp \<Longrightarrow>
   length cp = length rs \<and> (\<forall>(r, v) \<in> set (zip rs cp). mul_cell (f r) (g r) = Inr v)"
proof (induction rs arbitrary: cp)
  case Nil
  then show ?case by simp
next
  case (Cons a rs)
  then show ?case by (auto split: sum.splits)
qed

lemma numeric_mul: "numeric a \<Longrightarrow> numeric b \<Longrightarrow> \<exists>c. mul_cell a b = Inr c"
  by (cases a; cases b) simp_all

lemma mul_series_numeric:
  "list_all (\<lambda>r. numeric (f r) \<and> numeric (g r)) rs \<Longrightarrow> \<exists>cp. mul_series (map f rs) (map g rs) = Inr cp"
proof (induction rs)
  case Nil
  then show ?case by simp
next
  case (Cons a rs)
  then obtain cp where "mul_series (map f rs) (map g rs) = Inr cp" by auto
  moreover from Cons.prems obtain c where "mul_cell (f a) (g a) = Inr c"
    using numeric_mul by fastforce
  ultimately show ?case by simp
qed

lemma stamp_long:
  assumes "long_table long"
  shows "setitem_scalar long ''ticker_currency'' v =
         \<lparr>columns = long_columns @ [''ticker_currency''], rows = map (\<lambda>r. r @ [v]) (rows long)\<rparr>"
proof -
  have "map2 (\<lambda>r v. r @ [v]) rs (replicate (length rs) v) = map (\<lambda>r. r @ [v]) rs" for rs :: "json list list"
    by (induction rs) simp_all
  then show ?thesis using assms
    by (simp add: setitem_scalar_def setitem_def long_table_def long_columns_def)
qed

lemma merge_long:
  assumes "long_table long" "rate_table rates"
  shows "merge_cross (setitem_scalar long ''ticker_currency'' v) rates =
         \<lparr>columns = merged_columns,
          rows = concat (map (\<lambda>a. map (\<lambda>b. a @ v # b) (rows rates)) (rows long))\<rparr>"
proof -
  have e: "(@) (x @ [v]) = (\<lambda>b. x @ v # b)" for x :: "json list"
    by (rule ext) simp
  show ?thesis
    using assms
    by (simp add: stamp_long merge_cross_def long_table_def rate_table_def long_columns_def rate_columns_def
        merged_columns_def comp_def e)
qed

lemma length_merged_rows: "length (merged_rows long v rates) = length (rows long) * length (rows rates)"
  unfolding merged_rows_def by (induction "rows long" arbitrary: long) (simp_all add: length_concat comp_def sum_list_triv)

lemma len4: "length a = 4 \<Longrightarrow> \<exists>w x y z. a = [w, x, y, z]"
  by (auto simp: length_Suc_conv numeral_eq_Suc)

lemma len2: "length b = 2 \<Longrightarrow> \<exists>y z. b = [y, z]"
  by (auto simp: length_Suc_conv numeral_eq_Suc)

lemma merged_row:
  assumes "long_table long" "rate_table rates" "r \<in> set (merged_rows long v rates)"
  shows "\<exists>t d p x c e. r = [t, d, p, x, v, c, e] \<and> [t, d, p, x] \<in> set (rows long) \<and> [c, e] \<in> set (rows rates)"
proof -
  from assms(3) obtain a b where ab: "a \<in> set (rows long)" "b \<in> set (rows rates)" "r = a @ v # b"
    by (auto simp: merged_rows_def)
  from ab(1) assms(1) have "length a = 4" by (auto simp: long_table_def list_all_iff)
  then obtain t d p x where a: "a = [t, d, p, x]" using len4 by blast
  from ab(2) assms(2) have "length b = 2" by (auto simp: rate_table_def list_all_iff)
  then obtain c e where b: "b = [c, e]" using len2 by blast
  show ?thesis using ab a b by auto
qed

lemma cell_merged:
  "cell merged_columns [t, d, p, x, v, c, e] ''price'' = x"
  "cell merged_columns [t, d, p, x, v, c, e] ''exchange_rate'' = e"
  by (simp_all add: cell_def col_index_def merged_columns_def)

lemma select_final:
  "map (cell (merged_columns @ [''currency_price'']) ([t, d, p, x, v, c, e] @ [m])) final_columns
   = [d, t, p, v, x, c, e, m]"
  by (simp add: cell_def col_index_def merged_columns_def final_columns_def)

lemma report_body_long:
  assumes "long_table long" "rate_table rates"
  shows "report_body (setitem_scalar long ''ticker_currency'' v) rates =
         (case mul_series (map (\<lambda>r. cell merged_columns r ''price'') (merged_rows long v rates))
                          (map (\<lambda>r. cell merged_columns r ''exchange_rate'') (merged_rows long v rates)) of
            Inl e \<Rightarrow> Inl e
          | Inr cp \<Rightarrow> Inr (report_of (merged_rows long v rates) cp))"
proof -
  have m: "merge_cross (setitem_scalar long ''ticker_currency'' v) rates =
           \<lparr>columns = merged_columns, rows = merged_rows long v rates\<rparr>"
    using merge_long[OF assms] by (simp add: merged_rows_def)
  have z: "map2 (\<lambda>r v. map (cell cs (r @ [v])) fs) R cp
           = map (\<lambda>(r, m). map (cell cs (r @ [m])) fs) (zip R cp)" for cs fs R cp
    by simp
  show ?thesis
    unfolding report_body_def m Let_def
    by (auto simp: getitem_def merged_columns_def select_columns_def setitem_def final_columns_def report_of_def
        split: sum.splits)
qed

lemma report_result:
  assumes "long_table long" "rate_table rates"
  shows "fst (create_stock_currency_report (Some long) rates cur) =
         (case mul_series (map (\<lambda>r. cell merged_columns r ''price'') (merged_rows long (JStr (upper cur)) rates))
                          (map (\<lambda>r. cell merged_columns r ''exchange_rate'') (merged_rows long (JStr (upper cur)) rates)) of
            Inl e \<Rightarrow> None
          | Inr cp \<Rightarrow> Some (report_of (merged_rows long (JStr (upper cur)) rates) cp))"
  by (simp add: create_stock_currency_report_def report_body_long[OF assms] Let_def split: sum.splits)

lemma report_row_cases:
  assumes "long_table long" "rate_table rates"
    and "fst (create_stock_currency_report (Some long) rates cur) = Some report"
    and "row \<in> set (rows report)"
  obtains t d p x c e m where "row = [d, t, p, JStr (upper cur), x, c, e, m]"
    and "[t, d, p, x] \<in> set (rows long)" and "[c, e] \<in> set (rows rates)" and "mul_cell x e = Inr m"
proof -
  let ?R = "merged_rows long (JStr (upper cur)) rates"
  from assms(3) obtain cp where cp:
    "mul_series (map (\<lambda>r. cell merged_columns r ''price'') ?R) (map (\<lambda>r. cell merged_columns r ''exchange_rate'') ?R) = Inr cp"
    and rep: "report = report_of ?R cp"
    unfolding report_result[OF assms(1,2)] by (auto split: sum.splits)
  from assms(4) rep obtain r m where rm: "(r, m) \<in> set (zip ?R cp)"
    and row: "row = map (cell (merged_columns @ [''currency_price'']) (r @ [m])) final_columns"
    by (auto simp: report_of_def)
  from mul_series_zip[OF cp] rm
  have mul: "mul_cell (cell merged_columns r ''price'') (cell merged_columns r ''exchange_rate'') = Inr m"
    by auto
  from rm have "r \<in> set ?R" by (rule set_zip_leftD)
  from merged_row[OF assms(1,2) this] obtain t d p x c e where
    r: "r = [t, d, p, x, JStr (upper cur), c, e]" and
    mem: "[t, d, p, x] \<in> set (rows long)" "[c, e] \<in> set (rows rates)"
    by blast
  have "row = [d, t, p, JStr (upper cur), x, c, e, m]"
    unfolding row r by (rule select_final)
  moreover have "mul_cell x e = Inr m"
    using mul unfolding r cell_merged .
  ultimately show thesis using mem that by blast
qed

lemma cell_final:
  "cell final_columns [d, t, p, v, x, c, e, m] ''price'' = x"
  "cell final_columns [d, t, p, v, x, c, e, m] ''exchange_rate'' = e"
  "cell final_columns [d, t, p, v, x, c, e, m] ''currency_price'' = m"
  "cell final_columns [d, t, p, v, x, c, e, m] ''ticker_currency'' = v"
  by (simp_all add: cell_def col_index_def final_columns_def)

text \<open>
  C2. For a long price table and a rate table, a report that the Report Builder returns
  has as many rows as the long table has rows times the rate table has rows; with
  numeric prices and rates it does return a report; and with a rate table of no rows it
  returns the report of no rows, under the final columns, not an error.
\<close>

theorem report_size:
  assumes "long_table long" and "rate_table rates"
  shows "(\<forall>report. fst (create_stock_currency_report (Some long) rates cur) = Some report \<longrightarrow>
            length (rows report) = length (rows long) * length (rows rates))
       \<and> (numeric_column long ''price'' \<and> numeric_column rates ''exchange_rate'' \<longrightarrow>
            fst (create_stock_currency_report (Some long) rates cur) \<noteq> None)
       \<and> (rows rates = [] \<longrightarrow>
            fst (create_stock_currency_report (Some long) rates cur) = Some \<lparr>columns = final_columns, rows = []\<rparr>)"
proof (intro conjI allI impI)
  let ?R = "merged_rows long (JStr (upper cur)) rates"
  let ?f = "\<lambda>r. cell merged_columns r ''price''" and ?g = "\<lambda>r. cell merged_columns r ''exchange_rate''"
  note res = report_result[OF assms, of cur]
  {
    fix report
    assume "fst (create_stock_currency_report (Some long) rates cur) = Some report"
    then obtain cp where cp: "mul_series (map ?f ?R) (map ?g ?R) = Inr cp" and rep: "report = report_of ?R cp"
      unfolding res by (auto split: sum.splits)
    from mul_series_zip[OF cp] have "length cp = length ?R" by simp
    then show "length (rows report) = length (rows long) * length (rows rates)"
      by (simp add: rep report_of_def length_merged_rows)
  }
  {
    assume num: "numeric_column long ''price'' \<and> numeric_column rates ''exchange_rate''"
    have "list_all (\<lambda>r. numeric (?f r) \<and> numeric (?g r)) ?R"
      unfolding list_all_iff
    proof
      fix r assume "r \<in> set ?R"
      from merged_row[OF assms this] obtain t d p x c e where
        r: "r = [t, d, p, x, JStr (upper cur), c, e]" and
        mem: "[t, d, p, x] \<in> set (rows long)" "[c, e] \<in> set (rows rates)"
        by blast
      from mem(1) num assms(1) have "numeric x"
        by (auto simp: numeric_column_def list_all_iff long_table_def long_columns_def cell_def col_index_def)
      moreover from mem(2) num assms(2) have "numeric e"
        by (auto simp: numeric_column_def list_all_iff rate_table_def rate_columns_def cell_def col_index_def)
      ultimately show "numeric (?f r) \<and> numeric (?g r)"
        unfolding r cell_merged by simp
    qed
    from mul_series_numeric[OF this] obtain cp where "mul_series (map ?f ?R) (map ?g ?R) = Inr cp" ..
    then show "fst (create_stock_currency_report (Some long) rates cur) \<noteq> None"
      unfolding res by simp
  }
  {
    assume "rows rates = []"
    then have "?R = []" by (simp add: merged_rows_def)
    then show "fst (create_stock_currency_report (Some long) rates cur) = Some \<lparr>columns = final_columns, rows = []\<rparr>"
      unfolding res by (simp add: report_of_def)
  }
qed

theorem report_size_witness:
  "long_table aapl_long \<and> rate_table eur_gbp
   \<and> numeric_column aapl_long ''price'' \<and> numeric_column eur_gbp ''exchange_rate''
   \<and> fst (create_stock_currency_report (Some aapl_long) eur_gbp ''usd'') = Some aapl_report
   \<and> length (rows aapl_report) = length (rows aapl_long) * length (rows eur_gbp)
   \<and> rate_table no_rates \<and> rows no_rates = []
   \<and> fst (create_stock_currency_report (Some aapl_long) no_rates ''usd'')
       = Some \<lparr>columns = final_columns, rows = []\<rparr>"
proof -
  note full = report_size [of aapl_long eur_gbp "''usd''", OF aapl_tables(1,2)]
  note none = report_size [of aapl_long no_rates "''usd''", OF aapl_tables(1,3)]
  have r: "fst (create_stock_currency_report (Some aapl_long) eur_gbp ''usd'') = Some aapl_report"
    by (simp add: aapl_report_eval)
  with full have n: "length (rows aapl_report) = length (rows aapl_long) * length (rows eur_gbp)"
    by blast
  have e: "rows no_rates = []"
    by (simp add: no_rates_def DataFrame_empty_def)
  with none have z: "fst (create_stock_currency_report (Some aapl_long) no_rates ''usd'')
       = Some \<lparr>columns = final_columns, rows = []\<rparr>"
    by blast
  show ?thesis
    using aapl_tables r n e z by (intro conjI)
qed

text \<open>
  C4. In every row of a report that the Report Builder returns for a long price table
  and a rate table, \<open>ticker_currency\<close> holds the upper-cased \<open>stock_currency\<close>, hence
  the same value in every row.
\<close>

theorem report_ticker_currency:
  assumes "long_table long" and "rate_table rates"
    and "fst (create_stock_currency_report (Some long) rates cur) = Some report"
    and "row \<in> set (rows report)"
  shows "cell final_columns row ''ticker_currency'' = JStr (upper cur)"
proof -
  from assms obtain t d p x c e m where row: "row = [d, t, p, JStr (upper cur), x, c, e, m]"
    by (rule report_row_cases)
  show ?thesis unfolding row cell_final ..
qed

theorem report_ticker_currency_witness:
  "long_table aapl_long \<and> rate_table eur_gbp
   \<and> fst (create_stock_currency_report (Some aapl_long) eur_gbp ''usd'') = Some aapl_report
   \<and> rows aapl_report ! 3 \<in> set (rows aapl_report)
   \<and> cell final_columns (rows aapl_report ! 3) ''ticker_currency'' = JStr ''USD''"
  using report_ticker_currency [of aapl_long eur_gbp "''usd''" aapl_report "rows aapl_report ! 3"]
    aapl_tables aapl_report_eval upper_usd
  by (simp add: aapl_report_def)

text \<open>
  C9, as amended. The Report Builder changes the long price table passed to it: after
  the call the table has one more column, \<open>ticker_currency\<close>, holding the upper-cased
  \<open>stock_currency\<close> in every row; the columns and cells it had before are unchanged.
\<close>

theorem report_stamps_input:
  assumes "''ticker_currency'' \<notin> set (columns long)"
  shows "fst (snd (create_stock_currency_report (Some long) rates cur)) =
         Some \<lparr>columns = columns long @ [''ticker_currency''],
               rows = map (\<lambda>r. r @ [JStr (upper cur)]) (rows long)\<rparr>"
proof -
  have "map2 (\<lambda>r v. r @ [v]) rs (replicate (length rs) v) = map (\<lambda>r. r @ [v]) rs" for rs :: "json list list" and v
    by (induction rs) simp_all
  then have "setitem_scalar long ''ticker_currency'' v =
      \<lparr>columns = columns long @ [''ticker_currency''], rows = map (\<lambda>r. r @ [v]) (rows long)\<rparr>" for v
    using assms by (simp add: setitem_scalar_def setitem_def)
  then show ?thesis
    by (simp add: create_stock_currency_report_def Let_def split: sum.splits)
qed

theorem report_stamps_input_witness:
  "''ticker_currency'' \<notin> set (columns aapl_long)
   \<and> fst (snd (create_stock_currency_report (Some aapl_long) eur_gbp ''usd'')) =
       Some \<lparr>columns = [''ticker'', ''date'', ''price_type'', ''price'', ''ticker_currency''],
             rows = [[JStr ''AAPL'', JStr ''2024-10-03'', JStr ''open'', JNum 150, JStr ''USD''],
                     [JStr ''AAPL'', JStr ''2024-10-03'', JStr ''close'', JNum 152, JStr ''USD'']]\<rparr>"
  using report_stamps_input [of aapl_long eur_gbp "''usd''"] upper_usd
  by (simp add: aapl_long_def long_columns_def)

text \<open>
  C9 as stated fails: after the call on the AAPL table, the table passed in is no
  longer the table it was.
\<close>

theorem report_input_changed_counterexample:
  "fst (snd (create_stock_currency_report (Some aapl_long) eur_gbp ''usd'')) \<noteq> Some aapl_long"
proof
  assume "fst (snd (create_stock_currency_report (Some aapl_long) eur_gbp ''usd'')) = Some aapl_long"
  then have "map_option columns (fst (snd (create_stock_currency_report (Some aapl_long) eur_gbp ''usd'')))
             = Some (columns aapl_long)"
    by simp
  then have "long_columns @ [''ticker_currency''] = columns aapl_long"
    by (simp add: aapl_report_eval)
  then show False
    by (simp add: aapl_long_def)
qed

section \<open>The Pipeline Driver\<close>

lemma reshape_long_table:
  assumes "fst (create_price_types_df df) = Some long"
  shows "long_table long"
proof (cases "filter (\<lambda>col. col \<in> set (columns (rename_wide df))) price_columns = []")
  case True
  with assms show ?thesis
    by (auto simp: create_price_types_df_def Let_def DataFrame_empty_def long_table_def long_columns_def)
next
  case False
  with assms show ?thesis
    by (auto simp: create_price_types_df_def Let_def melt_def rename_columns_def long_table_def
        long_columns_def list_all_iff split: sum.splits if_splits)
qed

lemma empty_rates_eval:
  "status \<noteq> 200 \<Longrightarrow>
   fetch_latest_currency_rates (Response status b) =
     (Some \<lparr>columns = rate_columns, rows = []\<rparr>, [(ERROR, ''Error fetching data'')])"
  by (simp add: fetch_latest_currency_rates_def DataFrame_empty_def)

lemma main_report_written:
  assumes "fst (fetch_latest_currency_rates (rates_response w)) = Some rates"
    and "fst (create_stock_currency_report stock_df_long rates cur) = Some report"
  shows "raised (main_report w l0 stock_df_long cur) = None \<and>
         written (main_report w l0 stock_df_long cur) = Some report"
  using assms by (auto simp: main_report_def Let_def split: prod.splits option.splits)

lemma main_report_crash:
  assumes "fst (fetch_latest_currency_rates (rates_response w)) = Some rates"
    and "fst (create_stock_currency_report stock_df_long rates cur) = None"
  shows "raised (main_report w l0 stock_df_long cur) = Some AttributeError \<and>
         written (main_report w l0 stock_df_long cur) = None"
  using assms by (auto simp: main_report_def Let_def split: prod.splits option.splits)

lemma main_report_no_rates:
  assumes "fst (fetch_latest_currency_rates (rates_response w)) = None"
  shows "raised (main_report w l0 stock_df_long cur) = None \<and>
         written (main_report w l0 stock_df_long cur) = None \<and>
         last (logged (main_report w l0 stock_df_long cur)) = (ERROR, ''Failed to fetch exchange rates. Exiting.'')"
  using assms by (auto simp: main_report_def Let_def split: prod.splits option.splits)

lemma main_proceeds:
  assumes "fst (fetch_stock_data (stock_response w)) = Some df"
    and "fst (fetch_currency_name (reference_response w)) = JStr cur" and "cur \<noteq> []"
  shows "\<exists>l. main w = main_report w l (fst (create_price_types_df df)) cur"
  using assms by (auto simp: main_def Let_def split: prod.splits option.splits)

lemma merged_rows_empty: "rows rates = [] \<Longrightarrow> merged_rows long v rates = []"
  by (simp add: merged_rows_def)

lemma rate_table_empty: "rate_table \<lparr>columns = rate_columns, rows = []\<rparr>"
  by (simp add: rate_table_def)

lemma main_fx_down_written:
  assumes "rates_response w = ConnectionFailed"
  shows "written (main w) = None"
proof -
  have r: "fst (fetch_latest_currency_rates (rates_response w)) = None"
    using assms by (simp add: fetch_latest_currency_rates_def)
  have "written (main_report w l s c) = None" for l s c
    using main_report_no_rates[OF r] by blast
  then show ?thesis
    by (simp add: main_def Let_def split: prod.splits option.splits json.splits)
qed

lemma main_fx_500_eval:
  "fst (fetch_stock_data (stock_response world_fx_500)) = Some aapl_wide"
  "fst (fetch_currency_name (reference_response world_fx_500)) = JStr ''usd''"
  "rates_response world_fx_500 = Response 500 InvalidJSON"
  by (simp_all add: world_fx_500_def usd_reference_def aapl_wide_def aapl_body_def fetch_defs)

lemma main_fx_down_eval:
  "fst (fetch_stock_data (stock_response world_fx_down)) = Some aapl_wide"
  "fst (fetch_currency_name (reference_response world_fx_down)) = JStr ''usd''"
  "rates_response world_fx_down = ConnectionFailed"
  by (simp_all add: world_fx_down_def world_fx_500_def usd_reference_def aapl_wide_def aapl_body_def fetch_defs)

text \<open>
  C7. On a status other than 200 from the FX provider the Rate Fetcher returns the rate
  table of no rows, not None; and a run in which the stock data was fetched and
  reshaped and the currency resolved to a non-empty string then returns normally and
  writes the report of no rows under the final columns.
\<close>

theorem empty_rates_zero_rows:
  assumes "status \<noteq> 200"
  shows "fst (fetch_latest_currency_rates (Response status b)) = Some \<lparr>columns = rate_columns, rows = []\<rparr>
       \<and> (rates_response w = Response status b
            \<and> fst (fetch_stock_data (stock_response w)) = Some df
            \<and> fst (create_price_types_df df) = Some long
            \<and> fst (fetch_currency_name (reference_response w)) = JStr cur \<and> cur \<noteq> []
          \<longrightarrow> raised (main w) = None
              \<and> written (main w) = Some \<lparr>columns = final_columns, rows = []\<rparr>)"
proof (intro conjI impI)
  show e: "fst (fetch_latest_currency_rates (Response status b)) = Some \<lparr>columns = rate_columns, rows = []\<rparr>"
    using assms by (simp add: empty_rates_eval)
  assume a: "rates_response w = Response status b
            \<and> fst (fetch_stock_data (stock_response w)) = Some df
            \<and> fst (create_price_types_df df) = Some long
            \<and> fst (fetch_currency_name (reference_response w)) = JStr cur \<and> cur \<noteq> []"
  then obtain l where m: "main w = main_report w l (Some long) cur"
    using main_proceeds[of w df cur] by auto
  from a have lt: "long_table long" by (auto intro: reshape_long_table)
  have "fst (create_stock_currency_report (Some long) \<lparr>columns = rate_columns, rows = []\<rparr> cur)
        = Some \<lparr>columns = final_columns, rows = []\<rparr>"
    unfolding report_result[OF lt rate_table_empty] by (simp add: merged_rows_empty report_of_def)
  moreover from a e have "fst (fetch_latest_currency_rates (rates_response w)) = Some \<lparr>columns = rate_columns, rows = []\<rparr>"
    by simp
  ultimately show "raised (main w) = None" "written (main w) = Some \<lparr>columns = final_columns, rows = []\<rparr>"
    unfolding m using main_report_written by blast+
qed

theorem empty_rates_zero_rows_witness:
  "(500::nat) \<noteq> 200
   \<and> fst (fetch_latest_currency_rates (Response 500 InvalidJSON)) = Some \<lparr>columns = rate_columns, rows = []\<rparr>
   \<and> rates_response world_fx_500 = Response 500 InvalidJSON
   \<and> fst (fetch_stock_data (stock_response world_fx_500)) = Some aapl_wide
   \<and> fst (create_price_types_df aapl_wide) = Some aapl_long
   \<and> fst (fetch_currency_name (reference_response world_fx_500)) = JStr ''usd'' \<and> ''usd'' \<noteq> []
   \<and> raised (main world_fx_500) = None
   \<and> written (main world_fx_500) = Some \<lparr>columns = final_columns, rows = []\<rparr>"
proof -
  have n: "(500::nat) \<noteq> 200" by simp
  note t = empty_rates_zero_rows [OF n, of InvalidJSON world_fx_500 aapl_wide aapl_long "''usd''"]
  have r: "fst (create_price_types_df aapl_wide) = Some aapl_long"
    by (simp add: aapl_reshape_eval)
  have s: "''usd'' \<noteq> []" by simp
  from t main_fx_500_eval r s
  have "raised (main world_fx_500) = None \<and>
        written (main world_fx_500) = Some \<lparr>columns = final_columns, rows = []\<rparr>"
    by blast
  with t n main_fx_500_eval r s show ?thesis by blast
qed

text \<open>
  C10. The Rate Fetcher returns None when the call fails in the transport and the rate
  table of no rows on a status other than 200. A run whose FX call fails in the
  transport writes nothing; when the stock data was fetched and the currency resolved
  to a non-empty string, it returns normally with the error
  \<^verbatim>\<open>Failed to fetch exchange rates. Exiting.\<close> as its last log entry.
\<close>

theorem rate_fetcher_failures:
  "fst (fetch_latest_currency_rates ConnectionFailed) = None
   \<and> (status \<noteq> 200 \<longrightarrow>
        fst (fetch_latest_currency_rates (Response status b)) = Some \<lparr>columns = rate_columns, rows = []\<rparr>)
   \<and> (rates_response w = ConnectionFailed \<longrightarrow>
        written (main w) = None
        \<and> (fst (fetch_stock_data (stock_response w)) = Some df
            \<and> fst (fetch_currency_name (reference_response w)) = JStr cur \<and> cur \<noteq> []
           \<longrightarrow> raised (main w) = None
               \<and> last (logged (main w)) = (ERROR, ''Failed to fetch exchange rates. Exiting.'')))"
proof (intro conjI impI)
  show "fst (fetch_latest_currency_rates ConnectionFailed) = None"
    by (simp add: fetch_latest_currency_rates_def)
  show "fst (fetch_latest_currency_rates (Response status b)) = Some \<lparr>columns = rate_columns, rows = []\<rparr>"
    if "status \<noteq> 200"
    using that by (simp add: empty_rates_eval)
  assume down: "rates_response w = ConnectionFailed"
  then show "written (main w) = None" by (rule main_fx_down_written)
  from down have r: "fst (fetch_latest_currency_rates (rates_response w)) = None"
    by (simp add: fetch_latest_currency_rates_def)
  assume "fst (fetch_stock_data (stock_response w)) = Some df
            \<and> fst (fetch_currency_name (reference_response w)) = JStr cur \<and> cur \<noteq> []"
  then obtain l where m: "main w = main_report w l (fst (create_price_types_df df)) cur"
    using main_proceeds[of w df cur] by auto
  show "raised (main w) = None"
    "last (logged (main w)) = (ERROR, ''Failed to fetch exchange rates. Exiting.'')"
    unfolding m using main_report_no_rates[OF r] by blast+
qed

theorem rate_fetcher_failures_witness:
  "(404::nat) \<noteq> 200
   \<and> fst (fetch_latest_currency_rates (Response 404 InvalidJSON)) = Some \<lparr>columns = rate_columns, rows = []\<rparr>
   \<and> rates_response world_fx_down = ConnectionFailed
   \<and> fst (fetch_stock_data (stock_response world_fx_down)) = Some aapl_wide
   \<and> fst (fetch_currency_name (reference_response world_fx_down)) = JStr ''usd'' \<and> ''usd'' \<noteq> []
   \<and> written (main world_fx_down) = None \<and> raised (main world_fx_down) = None
   \<and> last (logged (main world_fx_down)) = (ERROR, ''Failed to fetch exchange rates. Exiting.'')"
proof -
  have n: "(404::nat) \<noteq> 200" and s: "''usd'' \<noteq> []" by simp_all
  note t = rate_fetcher_failures [of 404 InvalidJSON world_fx_down aapl_wide "''usd''"]
  from t n have a: "fst (fetch_latest_currency_rates (Response 404 InvalidJSON))
                    = Some \<lparr>columns = rate_columns, rows = []\<rparr>"
    by blast
  from t main_fx_down_eval s
  have b: "written (main world_fx_down) = None \<and> raised (main world_fx_down) = None
      \<and> last (logged (main world_fx_down)) = (ERROR, ''Failed to fetch exchange rates. Exiting.'')"
    by blast
  from n s a b main_fx_down_eval show ?thesis by blast
qed

text \<open>
  C5. The stock provider answers 200 with a well-formed body that has neither \<open>open\<close>
  nor \<open>close\<close>: the Price Fetcher logs the warning of line 50 and falls through to
  the \<^verbatim>\<open>return None\<close> of line 58, the value it also returns when the call fails in
  the transport, where its docstring (line 37) announces an empty DataFrame. The two
  outcomes differ in the log alone.
\<close>

theorem fetch_stock_data_no_data_returns_none:
  "fetch_stock_data (Response 200 (Json (JObj [(''status'', JStr ''OK'')])))
     = (None, [(INFO, ''Fetching stock data''), (WARNING, ''No trading data available'')])
   \<and> fetch_stock_data ConnectionFailed
     = (None, [(INFO, ''Fetching stock data''), (ERROR, ''Network error fetching stock data'')])
   \<and> fst (fetch_stock_data (Response 200 (Json (JObj [(''status'', JStr ''OK'')]))))
     = fst (fetch_stock_data ConnectionFailed)"
  by (simp add: fetch_stock_data_def has_key_def)

text \<open>
  C6. The reference provider answers 200 and the body has no \<open>results\<close>: the resolver
  logs that the currency information was not found and raises ValueError inside its
  own \<^verbatim>\<open>try\<close>, the handler of line 96 catches it, and the resolver returns None, the
  value it also returns when the call fails in the transport. Nothing is raised to
  \<^verbatim>\<open>main\<close>, which stops at the test of line 292, returns, and writes nothing.
\<close>

theorem currency_not_found_returns_none:
  "fetch_currency_name no_currency_response = (JNull, not_found_log)
   \<and> fst (fetch_currency_name no_currency_response) = fst (fetch_currency_name ConnectionFailed)
   \<and> raised (main world_no_currency) = None \<and> written (main world_no_currency) = None"
  by (simp add: main_def world_no_currency_def world_fx_500_def no_currency_response_def aapl_body_def
      create_price_types_df_def fetch_defs frame_defs)

text \<open>
  C8. The stock provider answers with an \<open>open\<close> and a \<open>close\<close> but neither \<open>symbol\<close>
  nor \<open>from\<close>: the Reshaper returns None (KeyError in \<^verbatim>\<open>melt\<close>), \<^verbatim>\<open>main\<close> goes on, the
  Report Builder returns None (TypeError on the item assignment to None), and
  \<^verbatim>\<open>df_stock_currency.to_csv\<close> raises AttributeError, which the handler of line 319
  does not catch: the exception leaves \<^verbatim>\<open>main\<close>.
\<close>

theorem main_raises_attribute_error:
  "raised (main world_no_symbol) = Some AttributeError \<and> written (main world_no_symbol) = None"
  by (simp add: main_def main_report_def world_no_symbol_def usd_reference_def eur_gbp_response_def
      create_price_types_df_def create_stock_currency_report_def fetch_defs frame_defs)

end
